theory Spec2Isabelle
  imports Complex_Main
begin

section \<open>Thrown values\<close>

text \<open>
  The crawler is JavaScript. A call that can throw is modelled by a sum type: \<open>Inl\<close>
  carries the thrown value, \<open>Inr\<close> the returned one. An \<open>Error\<close> object is either the
  repository's own \<open>CrawlerError\<close> or any other object with a string \<open>message\<close>
  (an \<open>Error\<close> of the runtime or of a library), of which only the message matters here.
\<close>

datatype ErrorCategory =
  NETWORK | PARSING | EXTRACTION | PROCESSING | VALIDATION | TIMEOUT | RATE_LIMIT | MEMORY | UNKNOWN

datatype ErrorSeverity = LOW | MEDIUM | HIGH | CRITICAL

text \<open>
  \<open>class CrawlerError extends Error\<close> of \<open>src/utils/errorHandler.js\<close>. The fields
  \<open>name\<close>, \<open>context\<close>, \<open>timestamp\<close> and \<open>stack\<close> are never read by the code below
  and are left out.
\<close>

record CrawlerError =
  message :: string
  category :: ErrorCategory
  severity :: ErrorSeverity
  retryable :: bool

definition retryableCategories :: "ErrorCategory list" where
  "retryableCategories = [NETWORK, TIMEOUT, RATE_LIMIT]"

definition isRetryable :: "CrawlerError \<Rightarrow> bool" where
  "isRetryable this = (category this \<in> set retryableCategories)"

text \<open>
  The constructor assigns \<open>category\<close> first and derives \<open>retryable\<close> from it last; before
  that assignment the field does not exist, which the placeholder \<open>False\<close> stands for.
\<close>

definition new_CrawlerError :: "string \<Rightarrow> ErrorCategory \<Rightarrow> ErrorSeverity \<Rightarrow> CrawlerError" where
  "new_CrawlerError msg cat sev =
     (let this = \<lparr>message = msg, category = cat, severity = sev, retryable = False\<rparr>
      in this\<lparr>retryable := isRetryable this\<rparr>)"

datatype js_error = PlainError string | Crawler CrawlerError

type_synonym 'a js = "js_error + 'a"

fun error_message :: "js_error \<Rightarrow> string" where
  "error_message (PlainError msg) = msg"
| "error_message (Crawler e) = message e"

text \<open>
  \<open>CrawlerError.fromError\<close> compares the category with \<open>ErrorCategory.CRITICAL\<close>, a key
  that \<open>ErrorCategory\<close> does not have, so the severity is always \<open>MEDIUM\<close>.
\<close>

definition fromError :: "js_error \<Rightarrow> ErrorCategory \<Rightarrow> CrawlerError" where
  "fromError error cat = new_CrawlerError (error_message error) cat MEDIUM"

text \<open>
  An operation handed to the retry policy is a caller's closure and may throw or reject
  with any value. Besides the \<open>Error\<close> objects there are \<open>null\<close> and \<open>undefined\<close>,
  on which reading \<open>.message\<close> raises a \<open>TypeError\<close>, and every other value, whose
  \<open>message\<close> reads as \<open>undefined\<close> (\<open>None\<close> below). The text of the
  \<open>TypeError\<close> is the engine's; the model fixes one.
\<close>

datatype thrown = Thrown js_error | Nullish | Other

definition message_of :: "thrown \<Rightarrow> string option js" where
  "message_of error =
     (case error of
        Thrown e \<Rightarrow> Inr (Some (error_message e))
      | Nullish \<Rightarrow> Inl (PlainError ''Cannot read properties of null or undefined'')
      | Other \<Rightarrow> Inr None)"

definition try_catch :: "'a js \<Rightarrow> (js_error \<Rightarrow> 'a js) \<Rightarrow> 'a js" where
  "try_catch body handler = (case body of Inl error \<Rightarrow> handler error | Inr v \<Rightarrow> Inr v)"

section \<open>Retry policy\<close>

record RetryConfig =
  maxRetries :: int
  baseDelay :: int

record RetryPolicy =
  config :: RetryConfig
  attempts :: "string \<rightharpoonup> nat"

text \<open>
  \<open>this.config = {maxRetries: 3, baseDelay: 1000, ...config}\<close>: a key the caller gives
  replaces the default (\<open>None\<close> is an absent key).
\<close>

definition new_RetryPolicy :: "int option \<Rightarrow> int option \<Rightarrow> RetryPolicy" where
  "new_RetryPolicy maxRetries_opt baseDelay_opt =
     \<lparr>config = \<lparr>maxRetries = (case maxRetries_opt of None \<Rightarrow> 3 | Some m \<Rightarrow> m),
                baseDelay = (case baseDelay_opt of None \<Rightarrow> 1000 | Some d \<Rightarrow> d)\<rparr>,
      attempts = Map.empty\<rparr>"

definition calculateDelay :: "RetryPolicy \<Rightarrow> nat \<Rightarrow> int" where
  "calculateDelay this attempt = baseDelay (config this) * int attempt"

text \<open>\<open>error instanceof CrawlerError && error.isRetryable()\<close> is false for every other value.\<close>

definition shouldRetry :: "RetryPolicy \<Rightarrow> thrown \<Rightarrow> string \<Rightarrow> bool" where
  "shouldRetry this error operationId =
     (let attempt = (case attempts this operationId of None \<Rightarrow> 0 | Some n \<Rightarrow> n)
      in int attempt < maxRetries (config this) \<and>
         (case error of Thrown (Crawler e) \<Rightarrow> isRetryable e | _ \<Rightarrow> False))"

text \<open>
  An operation is a zero-argument asynchronous closure. It is modelled as a function on a
  world \<open>'w\<close> that stands for everything the closure reads and writes: it returns the outcome
  of the call and the world after it, so that successive calls may differ. What the policy
  itself does to the outside is recorded as a list of effects: each invocation of the
  operation and each timer it waits on. One call of \<open>executeWithRetry\<close> is followed from
  start to end; calls interleaved by other page visits are outside the model.
\<close>

datatype effect = Invoke | Sleep int

type_synonym ('a, 'w) operation = "'w \<Rightarrow> (thrown + 'a) \<times> 'w"

text \<open>
  The body of \<open>while (true)\<close> in \<open>executeWithRetry\<close>; \<open>n\<close> is the local variable
  \<open>attempts\<close>.
\<close>

function retry_loop ::
  "('a, 'w) operation \<Rightarrow> string \<Rightarrow> nat \<Rightarrow> RetryPolicy \<Rightarrow> 'w \<Rightarrow> effect list
     \<Rightarrow> (thrown + 'a) \<times> 'w \<times> RetryPolicy \<times> effect list" where
  "retry_loop operation operationId n this w tr =
     (case operation w of
        (Inr result, w') \<Rightarrow>
          (Inr result, w', this\<lparr>attempts := (attempts this)(operationId := None)\<rparr>, tr @ [Invoke])
      | (Inl error, w') \<Rightarrow>
          (let n' = n + 1;
               this' = this\<lparr>attempts := (attempts this)(operationId \<mapsto> n')\<rparr>
           in if \<not> shouldRetry this' error operationId
              then (Inl error, w', this', tr @ [Invoke])
              else retry_loop operation operationId n' this' w'
                     (tr @ [Invoke, Sleep (calculateDelay this' n')])))"
  by pat_completeness auto
termination
  by (relation "measure (\<lambda>(operation, operationId, n, this, w, tr).
                   nat (maxRetries (config this) - int n))")
     (auto simp: shouldRetry_def)

definition executeWithRetry ::
  "RetryPolicy \<Rightarrow> ('a, 'w) operation \<Rightarrow> string \<Rightarrow> 'w
     \<Rightarrow> (thrown + 'a) \<times> 'w \<times> RetryPolicy \<times> effect list" where
  "executeWithRetry this operation operationId w = retry_loop operation operationId 0 this w []"

section \<open>Error handler\<close>

record ErrorStats =
  totalErrors :: nat
  errorsByCategory :: "ErrorCategory \<rightharpoonup> nat"
  errorsBySeverity :: "ErrorSeverity \<rightharpoonup> nat"
  recoveredErrors :: nat
  unrecoverableErrors :: nat

record ErrorHandler =
  retryPolicy :: RetryPolicy
  errorStats :: ErrorStats

definition new_ErrorHandler :: "int option \<Rightarrow> int option \<Rightarrow> ErrorHandler" where
  "new_ErrorHandler maxRetries_opt baseDelay_opt =
     \<lparr>retryPolicy = new_RetryPolicy maxRetries_opt baseDelay_opt,
      errorStats = \<lparr>totalErrors = 0, errorsByCategory = Map.empty, errorsBySeverity = Map.empty,
                    recoveredErrors = 0, unrecoverableErrors = 0\<rparr>\<rparr>"

definition updateErrorStats :: "ErrorStats \<Rightarrow> thrown \<Rightarrow> ErrorStats" where
  "updateErrorStats s error =
     (let s1 = s\<lparr>totalErrors := totalErrors s + 1\<rparr>
      in case error of
           Thrown (Crawler e) \<Rightarrow>
             (let categoryCount = (case errorsByCategory s1 (category e) of None \<Rightarrow> 0 | Some k \<Rightarrow> k)
              in s1\<lparr>errorsByCategory := (errorsByCategory s1)(category e \<mapsto> categoryCount + 1)\<rparr>)
         | _ \<Rightarrow> s1)"

text \<open>
  The object \<open>{recovered: false, skipped: true, reason: error.message}\<close> that stands for a
  failed operation; \<open>reason\<close> is \<open>None\<close> when it is \<open>undefined\<close>. The model tags what
  \<open>executeWithErrorHandling\<close> returns: the operation's own result, or this object.
\<close>

record Sentinel =
  recovered :: bool
  skipped :: bool
  reason :: "string option"

datatype 'a handled = Result 'a | Skip Sentinel

text \<open>
  The \<open>catch\<close> block updates the statistics first and then reads \<open>error.message\<close>, for
  \<open>console.warn\<close> and for the object it returns. Where that read throws, the
  \<open>TypeError\<close> leaves \<open>executeWithErrorHandling\<close> (\<open>Inl\<close>), after the statistics
  have been updated. What \<open>console.warn\<close> writes is not part of the model.
\<close>

definition executeWithErrorHandling ::
  "ErrorHandler \<Rightarrow> ('a, 'w) operation \<Rightarrow> string \<Rightarrow> 'w
     \<Rightarrow> 'a handled js \<times> 'w \<times> ErrorHandler \<times> effect list" where
  "executeWithErrorHandling this operation operationId w =
     (case executeWithRetry (retryPolicy this) operation operationId w of
        (Inr result, w', rp, tr) \<Rightarrow> (Inr (Result result), w', this\<lparr>retryPolicy := rp\<rparr>, tr)
      | (Inl error, w', rp, tr) \<Rightarrow>
          (let this1 = this\<lparr>retryPolicy := rp,
                            errorStats := updateErrorStats (errorStats this) error\<rparr>
           in case message_of error of
                Inl typeError \<Rightarrow> (Inl typeError, w', this1, tr)
              | Inr msg \<Rightarrow>
                  (Inr (Skip \<lparr>recovered = False, skipped = True, reason = msg\<rparr>), w', this1, tr)))"


section \<open>URL frontier filter\<close>

text \<open>
  \<open>class UrlFilter\<close> of the web crawler module. The glob matcher \<open>minimatch\<close> is a
  library function and a parameter of the model: \<open>minimatch url pattern\<close> returns a
  boolean or throws. The set \<open>baseUrls\<close> is not read by the functions below and is left
  out.
\<close>

record UrlFilterOptions =
  includeUrlGlobs :: "string list option"
  excludeUrlGlobs :: "string list option"
  maxCrawlDepth :: "int option"

record UrlFilter =
  includeGlobs :: "string list"
  excludeGlobs :: "string list"
  maxDepth :: int

text \<open>
  \<open>options.x || d\<close> takes the default for an absent key and for a falsy value; an empty
  array is truthy, the number \<open>0\<close> is falsy.
\<close>

definition new_UrlFilter :: "UrlFilterOptions \<Rightarrow> UrlFilter" where
  "new_UrlFilter options =
     \<lparr>includeGlobs = (case includeUrlGlobs options of None \<Rightarrow> [''**''] | Some gs \<Rightarrow> gs),
      excludeGlobs = (case excludeUrlGlobs options of None \<Rightarrow> [] | Some gs \<Rightarrow> gs),
      maxDepth = (case maxCrawlDepth options of None \<Rightarrow> 3 | Some d \<Rightarrow> if d = 0 then 3 else d)\<rparr>"

text \<open>
  \<open>Array.prototype.some\<close> with a callback that may throw: it stops at the first element
  for which the callback returns true, and a throw of the callback leaves the loop.
\<close>

fun array_some :: "('a \<Rightarrow> bool js) \<Rightarrow> 'a list \<Rightarrow> bool js" where
  "array_some f [] = Inr False"
| "array_some f (x # xs) =
     (case f x of
        Inl error \<Rightarrow> Inl error
      | Inr hit \<Rightarrow> if hit then Inr True else array_some f xs)"

type_synonym matcher = "string \<Rightarrow> string \<Rightarrow> bool js"

definition matchesIncludePatterns :: "UrlFilter \<Rightarrow> matcher \<Rightarrow> string \<Rightarrow> bool js" where
  "matchesIncludePatterns this minimatch url =
     try_catch (array_some (\<lambda>pattern. minimatch url pattern) (includeGlobs this))
               (\<lambda>error. Inr False)"

definition matchesExcludePatterns :: "UrlFilter \<Rightarrow> matcher \<Rightarrow> string \<Rightarrow> bool js" where
  "matchesExcludePatterns this minimatch url =
     try_catch (array_some (\<lambda>pattern. minimatch url pattern) (excludeGlobs this))
               (\<lambda>error. Inr False)"

record FilterDecision =
  allowed :: bool
  reason :: string

definition shouldCrawl :: "UrlFilter \<Rightarrow> matcher \<Rightarrow> string \<Rightarrow> int \<Rightarrow> FilterDecision js" where
  "shouldCrawl this minimatch url currentDepth =
     (if currentDepth \<ge> maxDepth this
      then Inr \<lparr>allowed = False, reason = ''depth_exceeded''\<rparr>
      else case matchesExcludePatterns this minimatch url of
             Inl error \<Rightarrow> Inl error
           | Inr excluded \<Rightarrow>
               if excluded then Inr \<lparr>allowed = False, reason = ''excluded_pattern''\<rparr>
               else case matchesIncludePatterns this minimatch url of
                      Inl error \<Rightarrow> Inl error
                    | Inr included \<Rightarrow>
                        if \<not> included then Inr \<lparr>allowed = False, reason = ''not_included''\<rparr>
                        else Inr \<lparr>allowed = True, reason = ''allowed''\<rparr>)"

text \<open>
  The class \<open>URL\<close> belongs to the runtime. The model takes what \<open>normalizeUrl\<close> uses of
  it as a parameter over the type \<open>'u\<close> of parsed URLs: the constructor, which throws on a
  string that does not parse, the setter of \<open>hash\<close>, and \<open>toString\<close>.
\<close>

record 'u URL_class =
  URL_new :: "string \<Rightarrow> 'u js"
  set_hash :: "'u \<Rightarrow> string \<Rightarrow> 'u"
  toString :: "'u \<Rightarrow> string"

definition normalizeUrl :: "'u URL_class \<Rightarrow> string \<Rightarrow> string js" where
  "normalizeUrl URL url =
     try_catch (case URL_new URL url of
                  Inl error \<Rightarrow> Inl error
                | Inr parsed \<Rightarrow> Inr (toString URL (set_hash URL parsed [])))
               (\<lambda>error. Inr url)"


subsection \<open>The URL class by components\<close>

text \<open>
  For a URL with an authority, as every http and https URL has one, the runtime's
  \<open>URL\<close> object is given by the strings that its properties \<open>protocol\<close>,
  \<open>username\<close>, \<open>password\<close>, \<open>host\<close>, \<open>pathname\<close>, \<open>search\<close> and \<open>hash\<close>
  return; \<open>toString\<close> returns \<open>href\<close>, which joins them. \<open>search\<close> and \<open>hash\<close> are
  empty or start with \<open>?\<close> and \<open>#\<close>. Assigning the empty string to \<open>hash\<close> removes the
  fragment; the assignment of another value is not used by the crawler and is modelled
  without the percent-encoding. The parser stays a parameter: \<open>component_URL parse\<close>
  is the URL class whose constructor is \<open>parse\<close>.
\<close>

record url_record =
  protocol :: string
  username :: string
  password :: string
  host :: string
  pathname :: string
  search :: string
  hash :: string

definition userinfo :: "url_record \<Rightarrow> string" where
  "userinfo u =
     (if username u = [] \<and> password u = [] then []
      else username u @ (if password u = [] then [] else '':'' @ password u) @ ''@'')"

definition href :: "url_record \<Rightarrow> string" where
  "href u = protocol u @ ''//'' @ userinfo u @ host u @ pathname u @ search u @ hash u"

definition component_URL :: "(string \<Rightarrow> url_record js) \<Rightarrow> url_record URL_class" where
  "component_URL parse =
     \<lparr>URL_new = parse,
      set_hash = (\<lambda>u v. u\<lparr>hash := (case v of [] \<Rightarrow> []
                                      | c # cs \<Rightarrow> if c = CHR ''#'' then v else CHR ''#'' # v)\<rparr>),
      toString = href\<rparr>"


subsection \<open>A sample of the runtime for closed examples\<close>

text \<open>
  The closed examples need a concrete parser and a concrete matcher. \<open>sample_parse\<close> is
  a finite table of what \<open>new URL(s)\<close> gives for the strings \<open>s\<close> listed. A string
  without a colon has no scheme and the constructor throws on it, as on \<open>not a url\<close>;
  every other string outside the table is treated in the same way, and no statement is
  made about those.
\<close>

definition URL_observations :: "(string \<times> url_record) list" where
  "URL_observations =
     [(''http://example.com#intro'',
         \<lparr>protocol = ''http:'', username = [], password = [], host = ''example.com'',
          pathname = ''/'', search = [], hash = ''#intro''\<rparr>),
      (''https://example.com/docs/?page=2#install'',
         \<lparr>protocol = ''https:'', username = [], password = [], host = ''example.com'',
          pathname = ''/docs/'', search = ''?page=2'', hash = ''#install''\<rparr>),
      (''https://example.com/docs/?page=2#usage'',
         \<lparr>protocol = ''https:'', username = [], password = [], host = ''example.com'',
          pathname = ''/docs/'', search = ''?page=2'', hash = ''#usage''\<rparr>)]"

definition sample_parse :: "string \<Rightarrow> url_record js" where
  "sample_parse s =
     (case map_of URL_observations s of
        None \<Rightarrow> Inl (PlainError ''Invalid URL'')
      | Some u \<Rightarrow> Inr u)"

definition sample_URL :: "url_record URL_class" where
  "sample_URL = component_URL sample_parse"

text \<open>
  \<open>sample_minimatch\<close> answers as \<open>minimatch\<close> does in three cases, the only ones it is
  used for: a pattern of more than 65536 characters (a \<open>TypeError\<close>), the pattern
  \<open>**\<close> against a path none of whose segments starts with a dot (a match), and a
  pattern without glob characters against a plain path (a match exactly when the two are
  equal).
\<close>

definition sample_minimatch :: matcher where
  "sample_minimatch path pattern =
     (if length pattern > 65536 then Inl (PlainError ''pattern is too long'')
      else Inr (pattern = ''**'' \<or> pattern = path))"

definition long_glob :: string where
  "long_glob = replicate 65537 (CHR ''a'')"

section \<open>Crawling statistics\<close>

text \<open>
  \<open>class CrawlingStats\<close>. The two dates are left out; an entry of \<open>errors\<close> or
  \<open>warnings\<close> is its message and its URL.
\<close>

record CrawlingStats =
  totalRequests :: nat
  successfulRequests :: nat
  failedRequests :: nat
  filteredUrls :: nat
  depthExceededUrls :: nat
  processedPages :: nat
  extractedChunks :: nat
  totalTokens :: nat
  errors :: "(string \<times> string) list"
  warnings :: "(string \<times> string) list"

definition new_CrawlingStats :: CrawlingStats where
  "new_CrawlingStats =
     \<lparr>totalRequests = 0, successfulRequests = 0, failedRequests = 0, filteredUrls = 0,
      depthExceededUrls = 0, processedPages = 0, extractedChunks = 0, totalTokens = 0,
      errors = [], warnings = []\<rparr>"

text \<open>
  A number is an IEEE 754 double. A finite double is modelled by the rational it denotes,
  and an arithmetic operation returns the exact result rounded to the nearest double,
  ties to the even significand. \<open>ulp x\<close> is the distance between neighbouring doubles at
  \<open>x > 0\<close>: the power of two \<open>u\<close> with \<open>2^52 * u \<le> x < 2^53 * u\<close>, found from \<open>1\<close> by
  doubling or halving. The limits of the exponent are not modelled: the counters are
  integers of at most \<open>2^53\<close> and their quotients are far from overflow and underflow.
  A result that is not finite (a division by zero) is \<open>None\<close>.
\<close>

definition round_half_even :: "rat \<Rightarrow> int" where
  "round_half_even y =
     (let f = \<lfloor>y\<rfloor>; r = y - of_int f
      in if r < 1 / 2 then f else if 1 / 2 < r then f + 1 else if even f then f else f + 1)"

function ulp_up :: "rat \<Rightarrow> rat \<Rightarrow> rat" where
  "ulp_up x u = (if 0 < u \<and> 2 ^ 53 * u \<le> x then ulp_up x (2 * u) else u)"
  by pat_completeness auto
termination
proof (relation "measure (\<lambda>(x, u). nat \<lfloor>x / (2 ^ 53 * u)\<rfloor>)")
  show "wf (measure (\<lambda>(x, u). nat \<lfloor>x / (2 ^ 53 * u)\<rfloor>))"
    by simp
next
  fix x u :: rat
  assume a: "0 < u \<and> 2 ^ 53 * u \<le> x"
  define z where "z = x / (2 ^ 53 * u)"
  have z1: "1 \<le> z"
    using a by (simp add: z_def field_simps)
  have half: "x / (2 ^ 53 * (2 * u)) = z / 2"
    by (simp add: z_def)
  have "of_int \<lfloor>z / 2\<rfloor> \<le> z / 2" "z < of_int \<lfloor>z\<rfloor> + 1" "1 \<le> \<lfloor>z\<rfloor>"
    using z1 by linarith+
  then have "(of_int \<lfloor>z / 2\<rfloor> :: rat) < of_int \<lfloor>z\<rfloor>"
    by linarith
  then have "\<lfloor>z / 2\<rfloor> < \<lfloor>z\<rfloor>"
    by simp
  moreover have "0 < \<lfloor>z\<rfloor>"
    using z1 by linarith
  ultimately have "nat \<lfloor>z / 2\<rfloor> < nat \<lfloor>z\<rfloor>"
    by linarith
  then have "nat \<lfloor>x / (2 ^ 53 * (2 * u))\<rfloor> < nat \<lfloor>x / (2 ^ 53 * u)\<rfloor>"
    unfolding half unfolding z_def .
  then show "((x, 2 * u), (x, u)) \<in> measure (\<lambda>(x, u). nat \<lfloor>x / (2 ^ 53 * u)\<rfloor>)"
    by simp
qed

function ulp_down :: "rat \<Rightarrow> rat \<Rightarrow> rat" where
  "ulp_down x u = (if 0 < x \<and> 0 < u \<and> x < 2 ^ 52 * u then ulp_down x (u / 2) else u)"
  by pat_completeness auto
termination
proof (relation "measure (\<lambda>(x, u). nat \<lfloor>2 ^ 52 * u / x\<rfloor>)")
  show "wf (measure (\<lambda>(x, u). nat \<lfloor>2 ^ 52 * u / x\<rfloor>))"
    by simp
next
  fix x u :: rat
  assume a: "0 < x \<and> 0 < u \<and> x < 2 ^ 52 * u"
  define z where "z = 2 ^ 52 * u / x"
  have z1: "1 \<le> z"
    using a by (simp add: z_def field_simps)
  have half: "2 ^ 52 * (u / 2) / x = z / 2"
    by (simp add: z_def)
  have "of_int \<lfloor>z / 2\<rfloor> \<le> z / 2" "z < of_int \<lfloor>z\<rfloor> + 1" "1 \<le> \<lfloor>z\<rfloor>"
    using z1 by linarith+
  then have "(of_int \<lfloor>z / 2\<rfloor> :: rat) < of_int \<lfloor>z\<rfloor>"
    by linarith
  then have "\<lfloor>z / 2\<rfloor> < \<lfloor>z\<rfloor>"
    by simp
  moreover have "0 < \<lfloor>z\<rfloor>"
    using z1 by linarith
  ultimately have "nat \<lfloor>z / 2\<rfloor> < nat \<lfloor>z\<rfloor>"
    by linarith
  then have "nat \<lfloor>2 ^ 52 * (u / 2) / x\<rfloor> < nat \<lfloor>2 ^ 52 * u / x\<rfloor>"
    unfolding half unfolding z_def .
  then show "((x, u / 2), (x, u)) \<in> measure (\<lambda>(x, u). nat \<lfloor>2 ^ 52 * u / x\<rfloor>)"
    by simp
qed

definition ulp :: "rat \<Rightarrow> rat" where
  "ulp x = ulp_down x (ulp_up x 1)"

definition to_double :: "rat \<Rightarrow> rat" where
  "to_double x =
     (if x = 0 then 0
      else if 0 < x then of_int (round_half_even (x / ulp x)) * ulp x
      else - (of_int (round_half_even (- x / ulp (- x))) * ulp (- x)))"

type_synonym number = "rat option"

definition js_divide :: "number \<Rightarrow> number \<Rightarrow> number" where
  "js_divide a b =
     (case (a, b) of
        (Some x, Some y) \<Rightarrow> if y = 0 then None else Some (to_double (x / y))
      | _ \<Rightarrow> None)"

definition js_times :: "number \<Rightarrow> number \<Rightarrow> number" where
  "js_times a b =
     (case (a, b) of
        (Some x, Some y) \<Rightarrow> Some (to_double (x * y))
      | _ \<Rightarrow> None)"

text \<open>
  \<open>Math.round\<close> returns the integer nearest to its argument, the upper one of two
  equally near, and a number that is not finite as it is.
\<close>

definition Math_round :: "number \<Rightarrow> int option" where
  "Math_round a = map_option (\<lambda>x. \<lfloor>x + 1 / 2\<rfloor>) a"

text \<open>
  \<open>getSuccessRate\<close> returns an integer, or \<open>None\<close> for a number that is not finite.
\<close>

definition getSuccessRate :: "CrawlingStats \<Rightarrow> int option" where
  "getSuccessRate this =
     (if totalRequests this = 0 then Some 0
      else Math_round
             (js_times (js_divide (Some (of_nat (successfulRequests this)))
                                  (Some (of_nat (totalRequests this))))
                       (Some 100)))"

definition addError :: "CrawlingStats \<Rightarrow> js_error \<Rightarrow> string \<Rightarrow> CrawlingStats" where
  "addError this error url = this\<lparr>errors := errors this @ [(error_message error, url)]\<rparr>"

section \<open>Error classifier\<close>

text \<open>
  \<open>String.prototype.includes\<close> and \<open>toLowerCase\<close>. A string is a list of bytes here;
  \<open>toLowerCase\<close> is modelled on the ASCII letters.
\<close>

fun startsWith :: "string \<Rightarrow> string \<Rightarrow> bool" where
  "startsWith s [] = True"
| "startsWith [] (c # cs) = False"
| "startsWith (d # ds) (c # cs) = (d = c \<and> startsWith ds cs)"

fun includes_str :: "string \<Rightarrow> string \<Rightarrow> bool" where
  "includes_str [] needle = (needle = [])"
| "includes_str (c # cs) needle = (startsWith (c # cs) needle \<or> includes_str cs needle)"

definition toLowerCase_char :: "char \<Rightarrow> char" where
  "toLowerCase_char c =
     (let n = (of_char c :: nat) in if 65 \<le> n \<and> n \<le> 90 then char_of (n + 32) else c)"

definition toLowerCase :: "string \<Rightarrow> string" where
  "toLowerCase s = map toLowerCase_char s"

definition categorizeError :: "js_error \<Rightarrow> ErrorCategory" where
  "categorizeError error =
     (let msg = toLowerCase (error_message error)
      in if includes_str msg ''network'' \<or> includes_str msg ''econnreset'' \<or> includes_str msg ''enotfound''
         then NETWORK
         else if includes_str msg ''timeout'' \<or> includes_str msg ''etimedout''
         then TIMEOUT
         else if includes_str msg ''rate limit'' \<or> includes_str msg ''too many requests''
         then RATE_LIMIT
         else UNKNOWN)"

section \<open>Recovery actions of the web crawler\<close>

text \<open>
  The proxy configuration is an object that the crawler's options and the browser-layer
  crawler can both refer to, and \<open>rotateProxy\<close> writes to it through one reference after
  reading it through the other. The model therefore keeps these objects in a store and the
  references as addresses. \<open>proxyUrls\<close> is \<open>None\<close> when the property is absent; an
  element is \<open>None\<close> when it is \<open>undefined\<close>, which is what reading an array outside its
  range gives.
\<close>

type_synonym ref = nat

record ProxyConfiguration =
  proxyUrls :: "string option list option"

record PlaywrightCrawler =
  crawler_proxyConfiguration :: "ref option"

text \<open>
  Of \<open>class WebCrawler\<close> the fields that failure recovery reads and writes.
  \<open>currentProxyIndex\<close> is a number; \<open>None\<close> is \<open>NaN\<close>.
\<close>

record WebCrawler =
  options_proxyConfiguration :: "ref option"
  stats :: CrawlingStats
  crawler :: "PlaywrightCrawler option"
  currentProxyIndex :: "nat option"
  proxyRotationEnabled :: bool
  store :: "ref \<Rightarrow> ProxyConfiguration"

definition new_WebCrawler :: "ref option \<Rightarrow> (ref \<Rightarrow> ProxyConfiguration) \<Rightarrow> WebCrawler" where
  "new_WebCrawler proxyConfiguration objects =
     \<lparr>options_proxyConfiguration = proxyConfiguration,
      stats = new_CrawlingStats,
      crawler = None,
      currentProxyIndex = Some 0,
      proxyRotationEnabled = (proxyConfiguration \<noteq> None),
      store = objects\<rparr>"

text \<open>
  \<open>initialize\<close> opens the dataset and constructs the \<open>PlaywrightCrawler\<close> with
  \<open>proxyConfiguration: this.options.proxyConfiguration\<close>; the crawler keeps the object it
  is given as its own \<open>proxyConfiguration\<close>. A throw of either call, given as
  \<open>failure\<close>, is thrown again as a \<open>WebCrawlerError\<close>.
\<close>

definition initialize :: "js_error option \<Rightarrow> WebCrawler \<Rightarrow> WebCrawler js" where
  "initialize failure this =
     (case failure of
        Some error \<Rightarrow> Inl (PlainError (''Failed to initialize crawler: '' @ error_message error))
      | None \<Rightarrow>
          Inr (this\<lparr>crawler :=
                 Some \<lparr>crawler_proxyConfiguration = options_proxyConfiguration this\<rparr>\<rparr>))"

text \<open>The remainder \<open>i % n\<close> of numbers: \<open>NaN\<close> for \<open>n = 0\<close> and for \<open>i = NaN\<close>.\<close>

definition js_mod :: "nat option \<Rightarrow> nat \<Rightarrow> nat option" where
  "js_mod i n = (case i of None \<Rightarrow> None | Some k \<Rightarrow> if n = 0 then None else Some (k mod n))"

definition js_succ :: "nat option \<Rightarrow> nat option" where
  "js_succ i = map_option Suc i"

text \<open>The read \<open>xs[i]\<close> of an array: \<open>undefined\<close> outside the range and for \<open>NaN\<close>.\<close>

definition js_index :: "'a option list \<Rightarrow> nat option \<Rightarrow> 'a option" where
  "js_index xs i = (case i of None \<Rightarrow> None | Some k \<Rightarrow> if k < length xs then xs ! k else None)"

definition rotateProxy :: "WebCrawler \<Rightarrow> WebCrawler" where
  "rotateProxy this =
     (case options_proxyConfiguration this of
        None \<Rightarrow> this
      | Some conf \<Rightarrow>
          (case proxyUrls (store this conf) of
             None \<Rightarrow> this
           | Some urls \<Rightarrow>
               (let index = js_mod (js_succ (currentProxyIndex this)) (length urls);
                    this1 = this\<lparr>currentProxyIndex := index\<rparr>
                in case crawler this1 of
                     None \<Rightarrow> this1
                   | Some c \<Rightarrow>
                       (case crawler_proxyConfiguration c of
                          None \<Rightarrow> this1
                        | Some active \<Rightarrow>
                            this1\<lparr>store := (store this1)
                              (active := (store this1 active)
                                 \<lparr>proxyUrls := Some [js_index urls index]\<rparr>)\<rparr>))))"

text \<open>
  \<open>performMemoryCleanup\<close> asks for a garbage collection, clears the dataset cache and
  waits a second, all inside a \<open>try\<close>; none of the fields modelled changes.
\<close>

definition performMemoryCleanup :: "WebCrawler \<Rightarrow> WebCrawler" where
  "performMemoryCleanup this = this"

definition getErrorSeverity :: "ErrorCategory \<Rightarrow> ErrorSeverity" where
  "getErrorSeverity cat =
     (case cat of
        MEMORY \<Rightarrow> HIGH
      | NETWORK \<Rightarrow> MEDIUM
      | TIMEOUT \<Rightarrow> MEDIUM
      | RATE_LIMIT \<Rightarrow> LOW
      | _ \<Rightarrow> MEDIUM)"

datatype recovery_action = RotatedProxy | MemoryCleanup

text \<open>
  \<open>handleFailedRequestWithRecovery\<close> returns the crawler after the call and the recovery
  actions it has taken, in order. Logging is not part of the model.
\<close>

definition handleFailedRequestWithRecovery ::
  "WebCrawler \<Rightarrow> string \<Rightarrow> js_error \<Rightarrow> WebCrawler \<times> recovery_action list" where
  "handleFailedRequestWithRecovery this url error =
     (let cat = categorizeError error;
          crawlerError = new_CrawlerError (error_message error) cat (getErrorSeverity cat);
          this1 = this\<lparr>stats := (stats this)\<lparr>failedRequests := failedRequests (stats this) + 1\<rparr>\<rparr>;
          this2 = this1\<lparr>stats := addError (stats this1) (Crawler crawlerError) url\<rparr>;
          (this3, done1) =
             (if cat = RATE_LIMIT \<and> proxyRotationEnabled this2
              then (rotateProxy this2, [RotatedProxy])
              else (this2, []))
      in if cat = MEMORY
         then (performMemoryCleanup this3, done1 @ [MemoryCleanup])
         else (this3, done1))"

section \<open>Fixtures for the statements\<close>

text \<open>
  The first two steps of the link filter in \<open>discoverLinks\<close>:
  \<open>url = normalizeUrl(req.url)\<close>, then \<open>shouldCrawl(url, nextDepth)\<close>.
\<close>

definition frontier_filter ::
  "'u URL_class \<Rightarrow> matcher \<Rightarrow> UrlFilter \<Rightarrow> string \<Rightarrow> int \<Rightarrow> FilterDecision js" where
  "frontier_filter URL minimatch this url depth =
     (case normalizeUrl URL url of
        Inl error \<Rightarrow> Inl error
      | Inr normalized \<Rightarrow> shouldCrawl this minimatch normalized depth)"

text \<open>
  A URL matches a list of globs, as \<open>Array.prototype.some\<close> over \<open>minimatch\<close> inside
  \<open>try\<close> finds it, when some glob of the list matches it and the matcher has returned
  false, and has not thrown, on every glob listed before that one.
\<close>

definition glob_scan_matches :: "matcher \<Rightarrow> string \<Rightarrow> string list \<Rightarrow> bool" where
  "glob_scan_matches minimatch url globs =
     (\<exists>before glob rest. globs = before @ glob # rest \<and> minimatch url glob = Inr True \<and>
        (\<forall>g \<in> set before. minimatch url g = Inr False))"

text \<open>An operation that fails with the same value at every call and changes nothing.\<close>

definition always_fails :: "thrown \<Rightarrow> ('a, 'w) operation" where
  "always_fails error w = (Inl error, w)"

text \<open>An operation every call of which fails with some retryable \<open>CrawlerError\<close>.\<close>

definition always_retryable :: "('a, 'w) operation \<Rightarrow> bool" where
  "always_retryable operation =
     (\<forall>w. \<exists>e w'. operation w = (Inl (Thrown (Crawler e)), w') \<and> isRetryable e)"

text \<open>A store whose object \<open>0\<close> is a proxy configuration with the pool a, b, c.\<close>

definition abc_store :: "ref \<Rightarrow> ProxyConfiguration" where
  "abc_store = (\<lambda>r. \<lparr>proxyUrls = None\<rparr>)
                 (0 := \<lparr>proxyUrls = Some [Some ''a'', Some ''b'', Some ''c'']\<rparr>)"


section \<open>The retry loop\<close>

lemma retry_loop_Inr:
  "operation w = (Inr result, w') \<Longrightarrow>
   retry_loop operation operationId n this w tr =
     (Inr result, w', this\<lparr>attempts := (attempts this)(operationId := None)\<rparr>, tr @ [Invoke])"
  by simp

lemma retry_loop_Inl:
  "operation w = (Inl error, w') \<Longrightarrow>
   retry_loop operation operationId n this w tr =
     (let this' = this\<lparr>attempts := (attempts this)(operationId \<mapsto> Suc n)\<rparr>
      in if int (Suc n) < maxRetries (config this) \<and>
            (case error of Thrown (Crawler e) \<Rightarrow> isRetryable e | _ \<Rightarrow> False)
         then retry_loop operation operationId (Suc n) this' w'
                (tr @ [Invoke, Sleep (baseDelay (config this) * int (Suc n))])
         else (Inl error, w', this', tr @ [Invoke]))"
  by (simp add: shouldRetry_def calculateDelay_def Let_def)

text \<open>
  An operation that keeps failing with a retryable error is invoked \<open>maxRetries\<close> times
  in all (once if \<open>maxRetries\<close> is below one), with the waits
  \<open>baseDelay\<close>, \<open>2 * baseDelay\<close>, ... between the invocations, and the last error is thrown.
\<close>

lemma retry_loop_always_retryable:
  assumes "always_retryable operation"
  shows "int n < maxRetries (config this) \<Longrightarrow>
         \<exists>e w' this'. retry_loop operation operationId n this w tr =
           (Inl (Thrown (Crawler e)), w', this',
            tr @ concat (map (\<lambda>k. [Invoke, Sleep (baseDelay (config this) * int k)])
                           [Suc n ..< nat (maxRetries (config this))]) @ [Invoke])
           \<and> config this' = config this
           \<and> attempts this' =
               (attempts this)(operationId \<mapsto> max (Suc n) (nat (maxRetries (config this))))"
proof (induction "nat (maxRetries (config this)) - n" arbitrary: n this w tr)
  case 0
  then show ?case by simp
next
  case (Suc d)
  from assms obtain e w1 where op: "operation w = (Inl (Thrown (Crawler e)), w1)"
    and re: "isRetryable e"
    unfolding always_retryable_def by blast
  let ?this' = "this\<lparr>attempts := (attempts this)(operationId \<mapsto> Suc n)\<rparr>"
  note step = retry_loop_Inl[where operation = operation and w = w, OF op]
  show ?case
  proof (cases "int (Suc n) < maxRetries (config this)")
    case True
    have d: "d = nat (maxRetries (config ?this')) - Suc n"
      using Suc.hyps(2) by simp
    have lt: "int (Suc n) < maxRetries (config ?this')"
      using True by simp
    from Suc.hyps(1)[OF d lt, of w1 "tr @ [Invoke, Sleep (baseDelay (config this) * int (Suc n))]"]
    obtain e' w' this'' where
      r: "retry_loop operation operationId (Suc n) ?this' w1
            (tr @ [Invoke, Sleep (baseDelay (config this) * int (Suc n))]) =
          (Inl (Thrown (Crawler e')), w', this'',
           (tr @ [Invoke, Sleep (baseDelay (config this) * int (Suc n))]) @
           concat (map (\<lambda>k. [Invoke, Sleep (baseDelay (config this) * int k)])
                     [Suc (Suc n) ..< nat (maxRetries (config this))]) @ [Invoke])"
      and c: "config this'' = config this"
      and a: "attempts this'' =
                (attempts ?this')(operationId \<mapsto> max (Suc (Suc n)) (nat (maxRetries (config this))))"
      by auto
    have up: "[Suc n ..< nat (maxRetries (config this))] =
                Suc n # [Suc (Suc n) ..< nat (maxRetries (config this))]"
      using True by (simp add: upt_conv_Cons)
    have mx: "max (Suc (Suc n)) (nat (maxRetries (config this))) =
                max (Suc n) (nat (maxRetries (config this)))"
      using True by simp
    show ?thesis
      using True re r c a
      by (simp add: step up mx del: retry_loop.simps upt_Suc)
  next
    case False
    with Suc.prems have eq: "nat (maxRetries (config this)) = Suc n"
      by simp
    show ?thesis
      using False re by (simp add: step eq del: retry_loop.simps)
  qed
qed

lemma executeWithRetry_cases:
  "(\<exists>result w' rp tr. executeWithRetry this operation operationId w = (Inr result, w', rp, tr)) \<or>
   (\<exists>error w' rp tr. executeWithRetry this operation operationId w = (Inl error, w', rp, tr))"
  by (cases "executeWithRetry this operation operationId w" rule: prod_cases4) (metis sum.exhaust)

text \<open>
  C1. With \<open>baseDelay = 1000\<close> and \<open>maxRetries = 3\<close>, an operation that always fails
  with a network error is invoked three times, not four: the policy waits 1000 ms and
  2000 ms, and after the third failure the counter has reached \<open>maxRetries\<close> and the error
  is thrown to the error handler, which returns the skip object. There is no third retry
  and no wait of 3000 ms.
\<close>

theorem default_policy_invokes_three_times:
  "(case executeWithErrorHandling (new_ErrorHandler (Some 3) (Some 1000))
           (always_fails (Thrown (Crawler (new_CrawlerError ''boom'' NETWORK MEDIUM)))) ''op'' () of
      (r, w, h, tr) \<Rightarrow>
        r = (Inr (Skip \<lparr>recovered = False, skipped = True, Sentinel.reason = Some ''boom''\<rparr>)
               :: unit handled js) \<and>
        tr = [Invoke, Sleep 1000, Invoke, Sleep 2000, Invoke] \<and>
        attempts (retryPolicy h) ''op'' = Some 3 \<and>
        totalErrors (errorStats h) = 1)"
  by (simp add: executeWithErrorHandling_def executeWithRetry_def always_fails_def
        new_ErrorHandler_def new_RetryPolicy_def new_CrawlerError_def isRetryable_def
        retryableCategories_def shouldRetry_def calculateDelay_def updateErrorStats_def
        message_of_def Let_def)

section \<open>The error handler\<close>

text \<open>
  Whatever the retry policy throws, except \<open>null\<close> and \<open>undefined\<close>, the handler turns
  into the skip object with \<open>reason: error.message\<close>; it adds one to \<open>totalErrors\<close> and,
  for a \<open>CrawlerError\<close>, one to the entry of its category in \<open>errorsByCategory\<close> (an
  absent entry counting as zero).
\<close>

lemma executeWithErrorHandling_skips:
  assumes "executeWithRetry (retryPolicy h) operation operationId w = (Inl error, w', rp, tr)"
    and "error \<noteq> Nullish"
  shows "\<exists>h' msg. executeWithErrorHandling h operation operationId w =
               (Inr (Skip \<lparr>recovered = False, skipped = True, Sentinel.reason = msg\<rparr>), w', h', tr)
           \<and> message_of error = Inr msg
           \<and> retryPolicy h' = rp
           \<and> totalErrors (errorStats h') = totalErrors (errorStats h) + 1
           \<and> (case error of
                 Thrown (Crawler e) \<Rightarrow>
                   errorsByCategory (errorStats h') =
                     (errorsByCategory (errorStats h))
                       (category e \<mapsto> (case errorsByCategory (errorStats h) (category e) of
                                          None \<Rightarrow> 0 | Some k \<Rightarrow> k) + 1)
               | _ \<Rightarrow> errorsByCategory (errorStats h') = errorsByCategory (errorStats h))"
proof (cases error)
  case (Thrown e)
  with assms(1) show ?thesis
    by (cases e)
       (simp_all add: executeWithErrorHandling_def updateErrorStats_def message_of_def Let_def)
next
  case Nullish
  with assms(2) show ?thesis by simp
next
  case Other
  with assms(1) show ?thesis
    by (simp add: executeWithErrorHandling_def updateErrorStats_def message_of_def Let_def)
qed

lemma executeWithErrorHandling_returns_result:
  "executeWithRetry (retryPolicy h) operation operationId w = (Inr result, w', rp, tr) \<Longrightarrow>
   executeWithErrorHandling h operation operationId w =
     (Inr (Result result), w', h\<lparr>retryPolicy := rp\<rparr>, tr)"
  by (simp add: executeWithErrorHandling_def)

text \<open>
  C2. An operation that rejects with \<open>null\<close> or \<open>undefined\<close> is invoked once and not
  retried; the \<open>catch\<close> block of \<open>executeWithErrorHandling\<close> adds one to
  \<open>totalErrors\<close> and then reads \<open>error.message\<close>, which raises a \<open>TypeError\<close>. The
  handler throws that error instead of returning the skip object: the failure is
  propagated.
\<close>

theorem executeWithErrorHandling_throws_on_nullish:
  "(case executeWithErrorHandling (new_ErrorHandler None None) (always_fails Nullish) ''page'' () of
      (r, w, h, tr) \<Rightarrow>
        r = (Inl (PlainError ''Cannot read properties of null or undefined'') :: unit handled js) \<and>
        tr = [Invoke] \<and>
        totalErrors (errorStats h) = 1)"
  by (simp add: executeWithErrorHandling_def executeWithRetry_def always_fails_def
        new_ErrorHandler_def new_RetryPolicy_def shouldRetry_def updateErrorStats_def
        message_of_def Let_def)

text \<open>
  C7. A \<open>CrawlerError\<close>, made by the constructor or by \<open>fromError\<close>, has
  \<open>retryable\<close> true exactly when its category is network, timeout or rate\_limit. An
  operation whose first call fails with a \<open>CrawlerError\<close> of any other category is
  invoked once by \<open>executeWithRetry\<close>, with no wait, and the error handler turns the
  failure into the skip object.
\<close>

theorem non_retryable_fails_once:
  "(retryable (new_CrawlerError msg cat sev) \<longleftrightarrow> cat \<in> {NETWORK, TIMEOUT, RATE_LIMIT}) \<and>
   (retryable (fromError err cat) \<longleftrightarrow> cat \<in> {NETWORK, TIMEOUT, RATE_LIMIT}) \<and>
   (operation w = (Inl (Thrown (Crawler e)), w') \<and>
    category e \<notin> {NETWORK, TIMEOUT, RATE_LIMIT} \<longrightarrow>
      executeWithRetry (retryPolicy h) operation operationId w =
        (Inl (Thrown (Crawler e)), w',
         (retryPolicy h)\<lparr>attempts := (attempts (retryPolicy h))(operationId \<mapsto> 1)\<rparr>, [Invoke]) \<and>
      (\<exists>h'. executeWithErrorHandling h operation operationId w =
         (Inr (Skip \<lparr>recovered = False, skipped = True, Sentinel.reason = Some (message e)\<rparr>),
          w', h', [Invoke])))"
  by (auto simp: new_CrawlerError_def fromError_def isRetryable_def retryableCategories_def Let_def
        executeWithErrorHandling_def executeWithRetry_def shouldRetry_def message_of_def)

theorem non_retryable_fails_once_witness:
  "\<not> retryable (new_CrawlerError ''bad input'' VALIDATION MEDIUM) \<and>
   executeWithRetry (retryPolicy (new_ErrorHandler (Some 3) (Some 1000)))
     (always_fails (Thrown (Crawler (new_CrawlerError ''bad input'' VALIDATION MEDIUM)))
        :: (unit, unit) operation) ''check'' () =
     (Inl (Thrown (Crawler (new_CrawlerError ''bad input'' VALIDATION MEDIUM))), (),
      (retryPolicy (new_ErrorHandler (Some 3) (Some 1000)))\<lparr>attempts := [''check'' \<mapsto> 1]\<rparr>,
      [Invoke]) \<and>
   (\<exists>h'. executeWithErrorHandling (new_ErrorHandler (Some 3) (Some 1000))
           (always_fails (Thrown (Crawler (new_CrawlerError ''bad input'' VALIDATION MEDIUM)))
              :: (unit, unit) operation) ''check'' () =
         (Inr (Skip \<lparr>recovered = False, skipped = True, Sentinel.reason = Some ''bad input''\<rparr>),
          (), h', [Invoke]))"
proof -
  let ?e = "new_CrawlerError ''bad input'' VALIDATION MEDIUM"
  have op: "(always_fails (Thrown (Crawler ?e)) :: (unit, unit) operation) () =
              (Inl (Thrown (Crawler ?e)), ())"
    by (simp add: always_fails_def)
  have cat: "category ?e \<notin> {NETWORK, TIMEOUT, RATE_LIMIT}"
    by (simp add: new_CrawlerError_def Let_def)
  from non_retryable_fails_once
         [of "''bad input''" VALIDATION MEDIUM "PlainError []"
             "always_fails (Thrown (Crawler ?e)) :: (unit, unit) operation" "()" ?e "()"
             "new_ErrorHandler (Some 3) (Some 1000)" "''check''"]
       op cat
  show ?thesis
    by (auto simp: new_ErrorHandler_def new_RetryPolicy_def new_CrawlerError_def Let_def)
qed


section \<open>The URL frontier filter\<close>

lemma try_catch_returns: "\<exists>v. try_catch body (\<lambda>error. Inr d) = Inr v"
  by (cases body) (simp_all add: try_catch_def)

lemma matchesExcludePatterns_returns: "\<exists>b. matchesExcludePatterns this minimatch url = Inr b"
  unfolding matchesExcludePatterns_def by (rule try_catch_returns)

lemma matchesIncludePatterns_returns: "\<exists>b. matchesIncludePatterns this minimatch url = Inr b"
  unfolding matchesIncludePatterns_def by (rule try_catch_returns)

text \<open>
  The scan of a list of globs finds a match exactly when some glob matches and the matcher
  has not thrown on a glob before it.
\<close>

lemma array_some_True_iff:
  "array_some f xs = Inr True \<longleftrightarrow>
     (\<exists>ys x zs. xs = ys @ x # zs \<and> f x = Inr True \<and> (\<forall>y \<in> set ys. f y = Inr False))"
proof (induction xs)
  case Nil
  then show ?case by simp
next
  case (Cons a xs)
  show ?case
  proof (cases "f a")
    case (Inl error)
    then show ?thesis
      by (auto simp: Cons_eq_append_conv)
  next
    case (Inr hit)
    show ?thesis
    proof (cases hit)
      case True
      with Inr have "f a = Inr True" by simp
      then have "a # xs = [] @ a # xs \<and> f a = Inr True \<and> (\<forall>y \<in> set []. f y = Inr False)"
        by simp
      then have "\<exists>ys x zs. a # xs = ys @ x # zs \<and> f x = Inr True \<and> (\<forall>y \<in> set ys. f y = Inr False)"
        by blast
      with Inr True show ?thesis by simp
    next
      case False
      with Inr have fa: "f a = Inr False" by simp
      have "(\<exists>ys x zs. a # xs = ys @ x # zs \<and> f x = Inr True \<and> (\<forall>y \<in> set ys. f y = Inr False))
              \<longleftrightarrow> (\<exists>ys x zs. xs = ys @ x # zs \<and> f x = Inr True \<and> (\<forall>y \<in> set ys. f y = Inr False))"
        (is "?L \<longleftrightarrow> ?R")
      proof
        assume ?L
        then obtain ys x zs where e: "a # xs = ys @ x # zs" and fx: "f x = Inr True"
          and no: "\<forall>y \<in> set ys. f y = Inr False" by blast
        show ?R
        proof (cases ys)
          case Nil
          with e fx fa show ?thesis by simp
        next
          case (Cons b bs)
          with e no have "xs = bs @ x # zs" "\<forall>y \<in> set bs. f y = Inr False" by simp_all
          with fx show ?thesis by blast
        qed
      next
        assume ?R
        then obtain ys x zs where e: "xs = ys @ x # zs" and fx: "f x = Inr True"
          and no: "\<forall>y \<in> set ys. f y = Inr False" by blast
        from e no fa have "a # xs = (a # ys) @ x # zs" "\<forall>y \<in> set (a # ys). f y = Inr False"
          by simp_all
        with fx show ?L by blast
      qed
      with Cons.IH fa show ?thesis by simp
    qed
  qed
qed

lemma array_some_total:
  "(\<forall>x \<in> set xs. \<exists>b. f x = Inr b) \<Longrightarrow> array_some f xs = Inr (\<exists>x \<in> set xs. f x = Inr True)"
  by (induction xs) auto

lemma matchesExcludePatterns_True_iff:
  "matchesExcludePatterns this minimatch url = Inr True \<longleftrightarrow>
     (\<exists>ys p zs. excludeGlobs this = ys @ p # zs \<and> minimatch url p = Inr True \<and>
        (\<forall>y \<in> set ys. minimatch url y = Inr False))"
proof -
  have "matchesExcludePatterns this minimatch url = Inr True \<longleftrightarrow>
          array_some (\<lambda>pattern. minimatch url pattern) (excludeGlobs this) = Inr True"
    by (cases "array_some (\<lambda>pattern. minimatch url pattern) (excludeGlobs this)")
       (simp_all add: matchesExcludePatterns_def try_catch_def)
  then show ?thesis
    by (simp add: array_some_True_iff)
qed

lemma matchesExcludePatterns_total:
  "(\<forall>p \<in> set (excludeGlobs this). \<exists>b. minimatch url p = Inr b) \<Longrightarrow>
   matchesExcludePatterns this minimatch url =
     Inr (\<exists>p \<in> set (excludeGlobs this). minimatch url p = Inr True)"
  by (simp add: matchesExcludePatterns_def try_catch_def array_some_total)

lemma array_some_append_hit:
  "(\<forall>y \<in> set ys. \<exists>b. f y = Inr b) \<Longrightarrow> f x = Inr True \<Longrightarrow>
   array_some f (ys @ x # zs) = Inr True"
  by (induction ys) auto

lemma glob_scan_matches_iff:
  "glob_scan_matches minimatch url globs \<longleftrightarrow>
     array_some (\<lambda>pattern. minimatch url pattern) globs = Inr True"
  unfolding glob_scan_matches_def by (simp add: array_some_True_iff)

lemma matchesExcludePatterns_scan:
  "matchesExcludePatterns this minimatch url =
     Inr (glob_scan_matches minimatch url (excludeGlobs this))"
proof (cases "array_some (\<lambda>pattern. minimatch url pattern) (excludeGlobs this)")
  case (Inl error)
  then show ?thesis
    by (simp add: matchesExcludePatterns_def try_catch_def glob_scan_matches_iff)
next
  case (Inr hit)
  then show ?thesis
    by (simp add: matchesExcludePatterns_def try_catch_def glob_scan_matches_iff)
qed

lemma matchesIncludePatterns_scan:
  "matchesIncludePatterns this minimatch url =
     Inr (glob_scan_matches minimatch url (includeGlobs this))"
proof (cases "array_some (\<lambda>pattern. minimatch url pattern) (includeGlobs this)")
  case (Inl error)
  then show ?thesis
    by (simp add: matchesIncludePatterns_def try_catch_def glob_scan_matches_iff)
next
  case (Inr hit)
  then show ?thesis
    by (simp add: matchesIncludePatterns_def try_catch_def glob_scan_matches_iff)
qed

lemma long_glob_length: "length long_glob = 65537"
  by (simp only: long_glob_def length_replicate)

lemma sample_minimatch_long_glob:
  "sample_minimatch path long_glob = Inl (PlainError ''pattern is too long'')"
  by (simp add: sample_minimatch_def long_glob_length)

text \<open>
  C3. For every URL and every depth with \<open>depth \<ge> maxDepth\<close>, \<open>shouldCrawl\<close> returns
  \<open>{allowed: false, reason: 'depth_exceeded'}\<close>, whatever the include and exclude
  patterns are and whatever the glob matcher answers.
\<close>

theorem shouldCrawl_depth_exceeded:
  "currentDepth \<ge> maxDepth this \<Longrightarrow>
   shouldCrawl this minimatch url currentDepth =
     Inr \<lparr>allowed = False, reason = ''depth_exceeded''\<rparr>"
  by (simp add: shouldCrawl_def)

theorem shouldCrawl_depth_exceeded_witness:
  "(2::int) \<ge> maxDepth (new_UrlFilter \<lparr>includeUrlGlobs = Some [''**'', ''https://example.com/docs''],
                                       excludeUrlGlobs = None, maxCrawlDepth = Some 2\<rparr>) \<and>
   list_all (\<lambda>pattern. sample_minimatch ''https://example.com/docs'' pattern = Inr True)
     (includeGlobs (new_UrlFilter \<lparr>includeUrlGlobs = Some [''**'', ''https://example.com/docs''],
                                   excludeUrlGlobs = None, maxCrawlDepth = Some 2\<rparr>)) \<and>
   shouldCrawl (new_UrlFilter \<lparr>includeUrlGlobs = Some [''**'', ''https://example.com/docs''],
                               excludeUrlGlobs = None, maxCrawlDepth = Some 2\<rparr>)
     sample_minimatch ''https://example.com/docs'' 2 =
     Inr \<lparr>allowed = False, reason = ''depth_exceeded''\<rparr>"
proof -
  let ?f = "new_UrlFilter \<lparr>includeUrlGlobs = Some [''**'', ''https://example.com/docs''],
                           excludeUrlGlobs = None, maxCrawlDepth = Some 2\<rparr>"
  have d: "(2::int) \<ge> maxDepth ?f"
    by (simp add: new_UrlFilter_def)
  have m: "list_all (\<lambda>pattern. sample_minimatch ''https://example.com/docs'' pattern = Inr True)
             (includeGlobs ?f)"
    by (simp add: new_UrlFilter_def sample_minimatch_def)
  from shouldCrawl_depth_exceeded[OF d, of sample_minimatch "''https://example.com/docs''"] d m
  show ?thesis by simp
qed

text \<open>
  C4, as the code has it. For every URL at a depth below \<open>maxDepth\<close> that matches an
  exclude glob, the matcher not having thrown on any exclude glob listed before it, and
  that matches an include glob, \<open>shouldCrawl\<close> returns
  \<open>{allowed: false, reason: 'excluded_pattern'}\<close>: exclusion wins over inclusion.
\<close>

theorem shouldCrawl_exclusion_wins:
  "currentDepth < maxDepth this \<Longrightarrow>
   excludeGlobs this = before @ glob # rest \<Longrightarrow>
   minimatch url glob = Inr True \<Longrightarrow>
   \<forall>g \<in> set before. \<exists>b. minimatch url g = Inr b \<Longrightarrow>
   \<exists>g \<in> set (includeGlobs this). minimatch url g = Inr True \<Longrightarrow>
   shouldCrawl this minimatch url currentDepth =
     Inr \<lparr>allowed = False, reason = ''excluded_pattern''\<rparr>"
proof -
  assume d: "currentDepth < maxDepth this"
    and e: "excludeGlobs this = before @ glob # rest"
    and m: "minimatch url glob = Inr True"
    and b: "\<forall>g \<in> set before. \<exists>b. minimatch url g = Inr b"
  have "array_some (\<lambda>pattern. minimatch url pattern) (excludeGlobs this) = Inr True"
    unfolding e using b m by (intro array_some_append_hit) simp_all
  then have "matchesExcludePatterns this minimatch url = Inr True"
    by (simp add: matchesExcludePatterns_def try_catch_def)
  with d show ?thesis
    by (simp add: shouldCrawl_def)
qed

theorem shouldCrawl_exclusion_wins_witness:
  "(1::int) < maxDepth (new_UrlFilter \<lparr>includeUrlGlobs = None,
                          excludeUrlGlobs = Some [''https://example.com/login'',
                                                  ''https://example.com/private''],
                          maxCrawlDepth = None\<rparr>) \<and>
   sample_minimatch ''https://example.com/private'' ''https://example.com/login'' = Inr False \<and>
   sample_minimatch ''https://example.com/private'' ''https://example.com/private'' = Inr True \<and>
   sample_minimatch ''https://example.com/private'' ''**'' = Inr True \<and>
   shouldCrawl (new_UrlFilter \<lparr>includeUrlGlobs = None,
                          excludeUrlGlobs = Some [''https://example.com/login'',
                                                  ''https://example.com/private''],
                          maxCrawlDepth = None\<rparr>)
     sample_minimatch ''https://example.com/private'' 1 =
     Inr \<lparr>allowed = False, reason = ''excluded_pattern''\<rparr>"
proof -
  let ?f = "new_UrlFilter \<lparr>includeUrlGlobs = None,
                          excludeUrlGlobs = Some [''https://example.com/login'',
                                                  ''https://example.com/private''],
                          maxCrawlDepth = None\<rparr>"
  let ?u = "''https://example.com/private''"
  have d: "(1::int) < maxDepth ?f"
    by (simp add: new_UrlFilter_def)
  have e: "excludeGlobs ?f = [''https://example.com/login''] @ ?u # []"
    by (simp add: new_UrlFilter_def)
  have m1: "sample_minimatch ?u ''https://example.com/login'' = Inr False"
    by (simp add: sample_minimatch_def)
  have m2: "sample_minimatch ?u ?u = Inr True"
    by (simp add: sample_minimatch_def)
  have m3: "sample_minimatch ?u ''**'' = Inr True"
    by (simp add: sample_minimatch_def)
  have b: "\<forall>g \<in> set [''https://example.com/login'']. \<exists>b. sample_minimatch ?u g = Inr b"
    using m1 by auto
  have i: "\<exists>g \<in> set (includeGlobs ?f). sample_minimatch ?u g = Inr True"
    using m3 by (simp add: new_UrlFilter_def)
  from shouldCrawl_exclusion_wins
         [where this = ?f and minimatch = sample_minimatch and url = ?u, OF d e m2 b i]
       d m1 m2 m3
  show ?thesis by simp
qed

text \<open>
  C4 as stated fails: the URL \<open>https://example.com/private\<close> matches the second
  exclude glob and the include glob \<open>**\<close>, but the first exclude glob is longer than
  the matcher accepts. The matcher throws on it, \<open>matchesExcludePatterns\<close> catches the
  throw and answers false, and the URL is allowed at depth 1.
\<close>

theorem exclusion_lost_after_throw:
  "(1::int) < maxDepth (new_UrlFilter \<lparr>includeUrlGlobs = None,
                          excludeUrlGlobs = Some [long_glob, ''https://example.com/private''],
                          maxCrawlDepth = None\<rparr>) \<and>
   ''https://example.com/private'' \<in>
     set (excludeGlobs (new_UrlFilter \<lparr>includeUrlGlobs = None,
                          excludeUrlGlobs = Some [long_glob, ''https://example.com/private''],
                          maxCrawlDepth = None\<rparr>)) \<and>
   sample_minimatch ''https://example.com/private'' ''https://example.com/private'' = Inr True \<and>
   ''**'' \<in>
     set (includeGlobs (new_UrlFilter \<lparr>includeUrlGlobs = None,
                          excludeUrlGlobs = Some [long_glob, ''https://example.com/private''],
                          maxCrawlDepth = None\<rparr>)) \<and>
   sample_minimatch ''https://example.com/private'' ''**'' = Inr True \<and>
   shouldCrawl (new_UrlFilter \<lparr>includeUrlGlobs = None,
                          excludeUrlGlobs = Some [long_glob, ''https://example.com/private''],
                          maxCrawlDepth = None\<rparr>)
     sample_minimatch ''https://example.com/private'' 1 =
     Inr \<lparr>allowed = True, reason = ''allowed''\<rparr>"
proof -
  let ?u = "''https://example.com/private''"
  have m2: "sample_minimatch ?u ?u = Inr True"
    by (simp add: sample_minimatch_def)
  have m3: "sample_minimatch ?u ''**'' = Inr True"
    by (simp add: sample_minimatch_def)
  show ?thesis
    using m2 m3
    by (simp add: shouldCrawl_def matchesExcludePatterns_def matchesIncludePatterns_def
          try_catch_def new_UrlFilter_def sample_minimatch_long_glob)
qed

text \<open>
  C5, as the code has it. Neither \<open>normalizeUrl\<close> nor \<open>shouldCrawl\<close> throws, on any
  string, whatever the URL class and the glob matcher do. A string that does not parse
  as a URL is returned unchanged by \<open>normalizeUrl\<close>, and below \<open>maxDepth\<close> the filter
  decides on it by the glob patterns alone, as for any other string. It is denied with
  \<open>excluded_pattern\<close> if some exclude glob matches it and the matcher has returned
  false, without throwing, on every exclude glob before that one; otherwise it is allowed
  if some include glob matches it and the matcher has returned false, without throwing,
  on every include glob before that one; otherwise it is denied with \<open>not_included\<close>.
\<close>

theorem frontier_filter_unparsable:
  "(\<exists>s. normalizeUrl URL url = Inr s) \<and>
   (\<exists>d. shouldCrawl this minimatch url currentDepth = Inr d) \<and>
   (URL_new URL url = Inl error \<longrightarrow> normalizeUrl URL url = Inr url) \<and>
   (URL_new URL url = Inl error \<and> currentDepth < maxDepth this \<longrightarrow>
      frontier_filter URL minimatch this url currentDepth =
        Inr (if glob_scan_matches minimatch url (excludeGlobs this)
             then \<lparr>allowed = False, reason = ''excluded_pattern''\<rparr>
             else if glob_scan_matches minimatch url (includeGlobs this)
             then \<lparr>allowed = True, reason = ''allowed''\<rparr>
             else \<lparr>allowed = False, reason = ''not_included''\<rparr>))"
proof -
  note ex = matchesExcludePatterns_scan[of this minimatch url]
  note inc = matchesIncludePatterns_scan[of this minimatch url]
  have n: "\<exists>s. normalizeUrl URL url = Inr s"
    unfolding normalizeUrl_def by (rule try_catch_returns)
  have s: "\<exists>d. shouldCrawl this minimatch url currentDepth = Inr d"
    by (simp add: shouldCrawl_def ex inc)
  have u: "URL_new URL url = Inl error \<longrightarrow> normalizeUrl URL url = Inr url"
    by (simp add: normalizeUrl_def try_catch_def)
  have f: "URL_new URL url = Inl error \<and> currentDepth < maxDepth this \<longrightarrow>
      frontier_filter URL minimatch this url currentDepth =
        Inr (if glob_scan_matches minimatch url (excludeGlobs this)
             then \<lparr>allowed = False, reason = ''excluded_pattern''\<rparr>
             else if glob_scan_matches minimatch url (includeGlobs this)
             then \<lparr>allowed = True, reason = ''allowed''\<rparr>
             else \<lparr>allowed = False, reason = ''not_included''\<rparr>)"
    by (simp add: frontier_filter_def normalizeUrl_def try_catch_def shouldCrawl_def ex inc)
  from n s u f show ?thesis by blast
qed

theorem frontier_filter_unparsable_witness:
  "URL_new sample_URL ''not a url'' = Inl (PlainError ''Invalid URL'') \<and>
   (1::int) < maxDepth (new_UrlFilter \<lparr>includeUrlGlobs = Some [''https://example.com/docs''],
                          excludeUrlGlobs = Some [long_glob, ''not a url''],
                          maxCrawlDepth = None\<rparr>) \<and>
   normalizeUrl sample_URL ''not a url'' = Inr ''not a url'' \<and>
   frontier_filter sample_URL sample_minimatch
     (new_UrlFilter \<lparr>includeUrlGlobs = Some [''https://example.com/docs''],
                     excludeUrlGlobs = Some [long_glob, ''not a url''],
                     maxCrawlDepth = None\<rparr>) ''not a url'' 1 =
     Inr \<lparr>allowed = False, reason = ''not_included''\<rparr>"
proof -
  let ?f = "new_UrlFilter \<lparr>includeUrlGlobs = Some [''https://example.com/docs''],
                           excludeUrlGlobs = Some [long_glob, ''not a url''],
                           maxCrawlDepth = None\<rparr>"
  have p: "URL_new sample_URL ''not a url'' = Inl (PlainError ''Invalid URL'')"
    by (simp add: sample_URL_def component_URL_def sample_parse_def URL_observations_def)
  have d: "(1::int) < maxDepth ?f"
    by (simp add: new_UrlFilter_def)
  have ex: "\<not> glob_scan_matches sample_minimatch ''not a url'' (excludeGlobs ?f)"
    by (simp add: glob_scan_matches_iff new_UrlFilter_def sample_minimatch_long_glob)
  have inc: "\<not> glob_scan_matches sample_minimatch ''not a url'' (includeGlobs ?f)"
    by (simp add: glob_scan_matches_iff new_UrlFilter_def sample_minimatch_def)
  from frontier_filter_unparsable
         [of sample_URL "''not a url''" ?f sample_minimatch 1 "PlainError ''Invalid URL''"]
       p d ex inc
  show ?thesis by simp
qed

text \<open>
  C5 as stated fails: with the default include glob \<open>**\<close>, which matches every plain
  string, the string \<open>not a url\<close> does not parse, passes through \<open>normalizeUrl\<close>
  unchanged and is allowed at depth 1.
\<close>

theorem unparsable_string_allowed:
  "URL_new sample_URL ''not a url'' = Inl (PlainError ''Invalid URL'') \<and>
   frontier_filter sample_URL sample_minimatch
     (new_UrlFilter \<lparr>includeUrlGlobs = None, excludeUrlGlobs = None, maxCrawlDepth = None\<rparr>)
     ''not a url'' 1 =
     Inr \<lparr>allowed = True, reason = ''allowed''\<rparr> \<and>
   frontier_filter sample_URL sample_minimatch
     (new_UrlFilter \<lparr>includeUrlGlobs = None, excludeUrlGlobs = None, maxCrawlDepth = None\<rparr>)
     ''not a url'' 1 \<noteq>
     Inr \<lparr>allowed = False, reason = ''not_included''\<rparr>"
  by (simp add: frontier_filter_def normalizeUrl_def try_catch_def shouldCrawl_def
        matchesExcludePatterns_def matchesIncludePatterns_def new_UrlFilter_def
        sample_URL_def component_URL_def sample_parse_def URL_observations_def
        sample_minimatch_def)

section \<open>Normalization\<close>






section \<open>Error classification and recovery\<close>

text \<open>
  C8. For every error, \<open>categorizeError\<close> returns network, timeout, rate\_limit or
  unknown, and never memory, parsing, extraction, processing or validation. The category
  that \<open>handleFailedRequestWithRecovery\<close> tests is the one \<open>categorizeError\<close>
  returns, so the handler never runs the memory cleanup.
\<close>

theorem categorizeError_never_memory:
  "categorizeError error \<in> {NETWORK, TIMEOUT, RATE_LIMIT, UNKNOWN} \<and>
   categorizeError error \<notin> {MEMORY, PARSING, EXTRACTION, PROCESSING, VALIDATION} \<and>
   MemoryCleanup \<notin> set (snd (handleFailedRequestWithRecovery this url error))"
proof -
  have c: "categorizeError error \<in> {NETWORK, TIMEOUT, RATE_LIMIT, UNKNOWN}"
    by (simp add: categorizeError_def Let_def)
  then have m: "categorizeError error \<noteq> MEMORY"
    by auto
  have "MemoryCleanup \<notin> set (snd (handleFailedRequestWithRecovery this url error))"
    using m by (simp add: handleFailedRequestWithRecovery_def Let_def split: prod.splits if_splits)
  with c show ?thesis by auto
qed

theorem categorizeError_never_memory_witness:
  "categorizeError (PlainError ''JavaScript heap out of memory'') = UNKNOWN \<and>
   snd (handleFailedRequestWithRecovery (new_WebCrawler None abc_store) ''https://example.com/''
          (PlainError ''JavaScript heap out of memory'')) = []"
proof -
  have c: "categorizeError (PlainError ''JavaScript heap out of memory'') = UNKNOWN"
    by (simp add: categorizeError_def toLowerCase_def toLowerCase_char_def Let_def)
  from categorizeError_never_memory
         [of "PlainError ''JavaScript heap out of memory''" "new_WebCrawler None abc_store"
             "''https://example.com/''"]
       c
  show ?thesis
    by (simp add: handleFailedRequestWithRecovery_def Let_def)
qed

section \<open>Proxy rotation\<close>

text \<open>With no proxy pool configured, \<open>rotateProxy\<close> changes nothing.\<close>

lemma rotateProxy_without_pool:
  "options_proxyConfiguration this = None \<or>
   (\<exists>conf. options_proxyConfiguration this = Some conf \<and> proxyUrls (store this conf) = None)
   \<Longrightarrow> rotateProxy this = this"
  by (auto simp: rotateProxy_def)

text \<open>
  Where no browser-layer crawler holds a proxy configuration, a rotation only advances
  the index modulo the length of the pool.
\<close>

lemma rotateProxy_without_crawler:
  "options_proxyConfiguration this = Some conf \<Longrightarrow>
   proxyUrls (store this conf) = Some urls \<Longrightarrow>
   crawler this = None \<Longrightarrow>
   rotateProxy this =
     this\<lparr>currentProxyIndex := js_mod (js_succ (currentProxyIndex this)) (length urls)\<rparr>"
  by (simp add: rotateProxy_def Let_def)

lemma rotateProxy_uninitialized_abc:
  "map currentProxyIndex
     [rotateProxy (new_WebCrawler (Some 0) abc_store),
      rotateProxy (rotateProxy (new_WebCrawler (Some 0) abc_store)),
      rotateProxy (rotateProxy (rotateProxy (new_WebCrawler (Some 0) abc_store)))] =
   [Some 1, Some 2, Some 0]"
  by (simp add: rotateProxy_def new_WebCrawler_def abc_store_def js_mod_def js_succ_def Let_def)

text \<open>
  C9. After \<open>initialize\<close> the crawler's proxy configuration is the object of the
  options. With the pool a, b, c and the index 0, the first rotation moves the index to 1
  and writes the one-element array with b into that object, which is the pool itself. The
  pool now has length one: the second and the third rotation set the index to 0 and select
  b again. The proxies selected are b, b, b, not b, c, a, and three rotations do not
  bring the index back through 1 and 2 to 0.
\<close>

theorem rotateProxy_collapses_pool:
  "(case initialize None (new_WebCrawler (Some 0) abc_store) of
      Inl error \<Rightarrow> False
    | Inr w0 \<Rightarrow>
        map (\<lambda>w. (currentProxyIndex w, proxyUrls (store w 0)))
          [w0, rotateProxy w0, rotateProxy (rotateProxy w0),
           rotateProxy (rotateProxy (rotateProxy w0))] =
        [(Some 0, Some [Some ''a'', Some ''b'', Some ''c'']),
         (Some 1, Some [Some ''b'']),
         (Some 0, Some [Some ''b'']),
         (Some 0, Some [Some ''b''])])"
  by (simp add: initialize_def rotateProxy_def new_WebCrawler_def abc_store_def js_mod_def
        js_succ_def js_index_def Let_def)

section \<open>Success rate\<close>

lemma ulp_up_bound:
  "0 < x \<Longrightarrow> 0 < u \<Longrightarrow> 0 < ulp_up x u \<and> x < 2 ^ 53 * ulp_up x u"
proof (induction x u rule: ulp_up.induct)
  case (1 x u)
  show ?case
  proof (cases "2 ^ 53 * u \<le> x")
    case True
    with 1 show ?thesis
      by (subst (1 2) ulp_up.simps) simp
  next
    case False
    with 1 show ?thesis
      by (subst (1 2) ulp_up.simps) simp
  qed
qed

lemma ulp_down_bound:
  "0 < x \<Longrightarrow> 0 < u \<Longrightarrow> x < 2 ^ 53 * u \<Longrightarrow>
   0 < ulp_down x u \<and> 2 ^ 52 * ulp_down x u \<le> x \<and> x < 2 ^ 53 * ulp_down x u"
proof (induction x u rule: ulp_down.induct)
  case (1 x u)
  show ?case
  proof (cases "x < 2 ^ 52 * u")
    case True
    with 1 show ?thesis
      by (subst (1 2 3) ulp_down.simps) simp
  next
    case False
    with 1 show ?thesis
      by (subst (1 2 3) ulp_down.simps) simp
  qed
qed

text \<open>For a positive \<open>x\<close> the significand \<open>x / ulp x\<close> lies between \<open>2^52\<close> and \<open>2^53\<close>.\<close>

lemma ulp_bracket: "0 < x \<Longrightarrow> 0 < ulp x \<and> 2 ^ 52 * ulp x \<le> x \<and> x < 2 ^ 53 * ulp x"
  unfolding ulp_def using ulp_up_bound[of x 1] ulp_down_bound[of x "ulp_up x 1"] by simp

lemma round_half_even_near: "\<bar>of_int (round_half_even y) - y\<bar> \<le> 1 / 2"
proof -
  have "of_int \<lfloor>y\<rfloor> \<le> y" "y < of_int \<lfloor>y\<rfloor> + 1"
    by linarith+
  then show ?thesis
    by (auto simp: round_half_even_def Let_def)
qed

text \<open>Rounding to a double changes a positive number by at most \<open>2^-53\<close> of it.\<close>

lemma to_double_error:
  assumes "0 < x"
  shows "\<bar>to_double x - x\<bar> \<le> x / 2 ^ 53"
proof -
  define u where "u = ulp x"
  from ulp_bracket[OF assms] have u: "0 < u" "2 ^ 52 * u \<le> x"
    by (simp_all add: u_def)
  have "to_double x - x = (of_int (round_half_even (x / u)) - x / u) * u"
    using assms u by (simp add: to_double_def u_def field_simps)
  then have "\<bar>to_double x - x\<bar> = \<bar>of_int (round_half_even (x / u)) - x / u\<bar> * u"
    using u by (simp add: abs_mult)
  also have "\<dots> \<le> 1 / 2 * u"
    using round_half_even_near[of "x / u"] u by (intro mult_right_mono) simp_all
  also have "\<dots> \<le> x / 2 ^ 53"
    using u by simp
  finally show ?thesis .
qed

lemma success_rate_error:
  assumes "0 \<le> q"
  shows "\<bar>of_int \<lfloor>to_double (to_double q * 100) + 1 / 2\<rfloor> - q * 100\<bar> \<le> 1 / 2 + 300 * q / 2 ^ 53"
proof (cases "q = 0")
  case True
  have "\<lfloor>1 / 2 :: rat\<rfloor> = 0"
    by (simp add: floor_eq_iff)
  with True show ?thesis
    by (simp add: to_double_def)
next
  case False
  with assms have q: "0 < q"
    by simp
  define a where "a = to_double q"
  define b where "b = to_double (a * 100)"
  define da where "da = \<bar>a - q\<bar>"
  define db where "db = \<bar>b - a * 100\<bar>"
  have "da \<le> q / 2 ^ 53"
    unfolding da_def a_def by (rule to_double_error[OF q])
  then have ea: "da * 9007199254740992 \<le> q"
    by simp
  have da: "a - q \<le> da" "q - a \<le> da"
    by (simp_all add: da_def)
  from ea da q have a: "0 < a" "a \<le> 2 * q"
    by linarith+
  then have "0 < a * 100"
    by simp
  then have "db \<le> a * 100 / 2 ^ 53"
    unfolding db_def b_def by (rule to_double_error)
  then have eb: "db * 9007199254740992 \<le> a * 100"
    by simp
  have db: "b - a * 100 \<le> db" "a * 100 - b \<le> db"
    by (simp_all add: db_def)
  have fl: "of_int \<lfloor>b + 1 / 2\<rfloor> \<le> b + 1 / 2" "b + 1 / 2 < of_int \<lfloor>b + 1 / 2\<rfloor> + 1"
    by linarith+
  define n where "n = (of_int \<lfloor>b + 1 / 2\<rfloor> :: rat)"
  define t where "t = q / 9007199254740992"
  have t: "t * 9007199254740992 = q"
    by (simp add: t_def)
  from fl have fl': "n \<le> b + 1 / 2" "b + 1 / 2 < n + 1"
    by (simp_all add: n_def)
  from ea eb da db a fl' t
  have "n - q * 100 \<le> 1 / 2 + 300 * t" "q * 100 - n \<le> 1 / 2 + 300 * t"
    by linarith+
  then have "\<bar>n - q * 100\<bar> \<le> 1 / 2 + 300 * t"
    by (simp add: abs_le_iff)
  then show ?thesis
    by (simp add: n_def t_def a_def b_def)
qed

text \<open>
  C10, as the code has it. \<open>getSuccessRate\<close> always returns an integer, never
  \<open>NaN\<close> and never an error: it returns 0 when \<open>totalRequests\<close> is 0, so on a fresh
  \<open>CrawlingStats\<close> it returns 0, and the division is guarded. Otherwise it returns
  \<open>successfulRequests / totalRequests * 100\<close>, computed in doubles and rounded to the
  nearest integer: with \<open>q\<close> the exact quotient, the result is within
  \<open>1 / 2 + 300 * q / 2^53\<close> of \<open>q * 100\<close>.
\<close>

theorem getSuccessRate_rounded:
  "getSuccessRate new_CrawlingStats = Some 0 \<and>
   (totalRequests this = 0 \<longrightarrow> getSuccessRate this = Some 0) \<and>
   (\<exists>n. getSuccessRate this = Some n \<and>
        (totalRequests this \<noteq> 0 \<longrightarrow>
           \<bar>of_int n -
             of_nat (successfulRequests this) / of_nat (totalRequests this) * (100::rat)\<bar>
           \<le> 1 / 2 +
             300 * (of_nat (successfulRequests this) / of_nat (totalRequests this)) / 2 ^ 53))"
proof (cases "totalRequests this = 0")
  case True
  then show ?thesis
    by (simp add: getSuccessRate_def new_CrawlingStats_def)
next
  case False
  let ?q = "of_nat (successfulRequests this) / of_nat (totalRequests this) :: rat"
  have "0 \<le> ?q"
    by simp
  from success_rate_error[OF this] False show ?thesis
    by (simp add: getSuccessRate_def new_CrawlingStats_def Math_round_def js_times_def
          js_divide_def)
qed

lemma success_rate_23_of_40:
  "\<lfloor>to_double (to_double (23 / 40) * 100) + 1 / 2\<rfloor> = 57"
  by code_simp

lemma success_rate_1_of_3:
  "\<lfloor>to_double (to_double (1 / 3) * 100) + 1 / 2\<rfloor> = 33"
  by code_simp

theorem getSuccessRate_rounded_witness:
  "totalRequests (new_CrawlingStats\<lparr>totalRequests := 40, successfulRequests := 23\<rparr>) \<noteq> 0 \<and>
   totalRequests new_CrawlingStats = 0 \<and>
   getSuccessRate new_CrawlingStats = Some 0 \<and>
   getSuccessRate (new_CrawlingStats\<lparr>totalRequests := 40, successfulRequests := 23\<rparr>) = Some 57 \<and>
   \<bar>of_int 57 - 23 / 40 * (100::rat)\<bar> \<le> 1 / 2 + 300 * (23 / 40) / 2 ^ 53"
proof -
  have r: "getSuccessRate (new_CrawlingStats\<lparr>totalRequests := 40, successfulRequests := 23\<rparr>) =
             Some 57"
    using success_rate_23_of_40
    by (simp add: getSuccessRate_def new_CrawlingStats_def Math_round_def js_times_def
          js_divide_def)
  from getSuccessRate_rounded
         [of "new_CrawlingStats\<lparr>totalRequests := 40, successfulRequests := 23\<rparr>"]
       r
  show ?thesis
    by (simp add: new_CrawlingStats_def)
qed

text \<open>
  C10 as stated fails: with one successful request out of three the quotient is
  \<open>100 / 3\<close>, and \<open>getSuccessRate\<close> returns 33.
\<close>

theorem getSuccessRate_one_of_three:
  "getSuccessRate (new_CrawlingStats\<lparr>totalRequests := 3, successfulRequests := 1\<rparr>) = Some 33 \<and>
   (of_int 33 :: rat) \<noteq>
     of_nat (successfulRequests (new_CrawlingStats\<lparr>totalRequests := 3, successfulRequests := 1\<rparr>)) /
     of_nat (totalRequests (new_CrawlingStats\<lparr>totalRequests := 3, successfulRequests := 1\<rparr>)) *
     100"
  using success_rate_1_of_3
  by (simp add: getSuccessRate_def new_CrawlingStats_def Math_round_def js_times_def
        js_divide_def)


end
